theory Spec2Isabelle
  imports Main
begin

section \<open>Package urlshort: data and external collaborators\<close>

text \<open>
  The repository holds four versions of package \<open>urlshort\<close>:
  \<^item> \<open>part_003\<close>: static maps only, redirecting with 308;
  \<^item> \<open>part_001\<close>: static maps redirecting with 302, plus \<open>DBHandler\<close>, which seeds the
    bolt store from \<open>../conf.json\<close> on every request (\<open>loadDB\<close>, \<open>jsonReader\<close>);
  \<^item> \<open>part_002\<close>: \<open>MapHandler\<close> with a nullable store, \<open>JSONHandler\<close> writing
    JSON-encoded units into an existing bucket;
  \<^item> \<open>students/mpereira/handler.go\<close>: as \<open>part_002\<close>, but \<open>JSONHandler\<close> creates the bucket
    and writes the urls themselves.
  Functions that are textually the same in all versions (\<open>parseYAML\<close>, \<open>parseJSON\<close>,
  \<open>buildMap\<close>, \<open>buildMapFromJson\<close>) are embedded once; the others carry the suffix of
  their file, the functions of \<open>handler.go\<close> keeping the plain name. \<open>MapHandler\<close> and
  \<open>YAMLHandler\<close> of \<open>part_002\<close> are those of \<open>handler.go\<close> without a \<open>fmt.Printf\<close> to
  standard output, which is not modelled; they are embedded once as well.
\<close>

type_synonym bytes = string

record pathUrlObj =
  Path :: string
  Url :: string

text \<open>Field \<open>Path\<close> of \<open>pathUrlUnit\<close> is written \<open>Path_json\<close>: record fields share one name space.\<close>

record pathUrlUnit =
  Path_json :: string
  URL :: string

record pathUrlObjJson =
  PathURL :: "pathUrlUnit list"

datatype error =
    ReadError string
  | UnmarshalError string
  | MarshalError string
  | ErrKeyRequired
  | ErrKeyTooLarge
  | ErrValueTooLarge

datatype panic = NilPointer | PanicError error

subsection \<open>The bolt store\<close>

text \<open>
  A bucket maps keys to values, a store maps bucket names to buckets. \<open>Put\<close> follows
  bolt's \<open>Bucket.Put\<close> inside a writable transaction: an empty key, a key longer than
  \<open>MaxKeySize\<close> and a value longer than \<open>MaxValueSize\<close> are refused and leave the bucket
  as it was. Nested buckets are never created by this package and are left out.
\<close>

type_synonym bucket = "bytes \<rightharpoonup> bytes"
type_synonym buckets = "bytes \<rightharpoonup> bucket"

definition MaxKeySize :: nat where
  "MaxKeySize = 32768"

definition MaxValueSize :: nat where
  "MaxValueSize = 2147483646"

definition Put :: "bucket \<Rightarrow> bytes \<Rightarrow> bytes \<Rightarrow> bucket \<times> error option" where
  "Put b key val =
     (if length key = 0 then (b, Some ErrKeyRequired)
      else if length key > MaxKeySize then (b, Some ErrKeyTooLarge)
      else if length val > MaxValueSize then (b, Some ErrValueTooLarge)
      else (b(key \<mapsto> val), None))"

definition PathRedirect :: bytes where
  "PathRedirect = ''PathRedirect''"

text \<open>\<open>tx.CreateBucketIfNotExists\<close> with a non-empty name in a writable transaction.\<close>

definition CreateBucketIfNotExists :: "buckets \<Rightarrow> bytes \<Rightarrow> buckets" where
  "CreateBucketIfNotExists bs name =
     (case bs name of None \<Rightarrow> bs(name \<mapsto> Map.empty) | Some b \<Rightarrow> bs)"

subsection \<open>Process state, results, transactions\<close>

text \<open>
  What a handler can touch: the response writer (the calls made on it, in order), the
  store and the files on disk. A computation returns a value or panics; both carry the
  state reached.
\<close>

datatype event = Redirect string nat | Fprintln string

record state =
  resp :: "event list"
  store :: buckets
  files :: "string \<rightharpoonup> bytes"

datatype 'a res = Ret 'a state | Panic panic state

datatype db = Nil_db | Open_db

text \<open>
  \<open>db.Update\<close> commits when the closure returns a nil error and rolls the store back
  otherwise, also when the closure panics. \<open>db.View\<close> never changes the store.
\<close>

definition db_Update :: "(state \<Rightarrow> error option res) \<Rightarrow> state \<Rightarrow> error option res" where
  "db_Update fn s =
     (case fn s of
        Ret None s' \<Rightarrow> Ret None s'
      | Ret (Some e) s' \<Rightarrow> Ret (Some e) (s'\<lparr>store := store s\<rparr>)
      | Panic p s' \<Rightarrow> Panic p (s'\<lparr>store := store s\<rparr>))"

definition db_View :: "(state \<Rightarrow> error option res) \<Rightarrow> state \<Rightarrow> error option res" where
  "db_View fn s =
     (case fn s of
        Ret e s' \<Rightarrow> Ret e (s'\<lparr>store := store s\<rparr>)
      | Panic p s' \<Rightarrow> Panic p (s'\<lparr>store := store s\<rparr>))"

definition ReadFile :: "state \<Rightarrow> string \<Rightarrow> bytes \<times> error option" where
  "ReadFile s name =
     (case files s name of None \<Rightarrow> ([], Some (ReadError name)) | Some c \<Rightarrow> (c, None))"

subsection \<open>Libraries taken as parameters\<close>

text \<open>
  The YAML and JSON codecs are not part of the repository. \<open>range_keys\<close> is the order in
  which one \<open>range\<close> loop of the Go runtime visits the keys of a map; Go leaves it
  unspecified. It is meant to list every key of the map once; a theorem that needs a
  key to be visited says so.
\<close>

record libs =
  yaml_Unmarshal :: "bytes \<Rightarrow> pathUrlObj list \<times> error option"
  json_Unmarshal :: "bytes \<Rightarrow> pathUrlObjJson \<times> error option"
  json_Marshal :: "pathUrlUnit \<Rightarrow> bytes \<times> error option"
  range_keys :: "(string \<rightharpoonup> string) \<Rightarrow> string list"

definition range_map :: "libs \<Rightarrow> (string \<rightharpoonup> string) \<Rightarrow> (string \<times> string) list" where
  "range_map L m =
     List.map_filter (\<lambda>k. case m k of None \<Rightarrow> None | Some v \<Rightarrow> Some (k, v)) (range_keys L m)"

subsection \<open>HTTP\<close>

record request =
  URL_Path :: string

type_synonym handler = "request \<Rightarrow> state \<Rightarrow> unit res"

definition StatusFound :: nat where
  "StatusFound = 302"

definition StatusPermanentRedirect :: nat where
  "StatusPermanentRedirect = 308"

definition http_Redirect :: "string \<Rightarrow> nat \<Rightarrow> state \<Rightarrow> state" where
  "http_Redirect url code s = s\<lparr>resp := resp s @ [Redirect url code]\<rparr>"

text \<open>\<open>hello\<close> of the two \<open>main\<close> packages, the handler behind \<open>defaultMux\<close>.\<close>

definition hello :: handler where
  "hello r s = Ret () (s\<lparr>resp := resp s @ [Fprintln ''Hello, world!'']\<rparr>)"

section \<open>Parsing and map building (all versions)\<close>

definition parseYAML :: "libs \<Rightarrow> bytes \<Rightarrow> pathUrlObj list \<times> error option" where
  "parseYAML L yaml =
     (case yaml_Unmarshal L yaml of
        (pathList, Some err) \<Rightarrow> (pathList, Some err)
      | (pathList, None) \<Rightarrow> (pathList, None))"

definition parseJSON :: "libs \<Rightarrow> bytes \<Rightarrow> pathUrlObjJson \<times> error option" where
  "parseJSON L jsonFile =
     (case json_Unmarshal L jsonFile of
        (pathList, Some err) \<Rightarrow> (pathList, Some err)
      | (pathList, None) \<Rightarrow> (pathList, None))"

fun buildMap_loop :: "(string \<rightharpoonup> string) \<Rightarrow> pathUrlObj list \<Rightarrow> (string \<rightharpoonup> string)" where
  "buildMap_loop pathMap [] = pathMap"
| "buildMap_loop pathMap (path # rest) = buildMap_loop (pathMap(Path path \<mapsto> Url path)) rest"

definition buildMap :: "pathUrlObj list \<Rightarrow> (string \<rightharpoonup> string)" where
  "buildMap pathUrlObj = buildMap_loop Map.empty pathUrlObj"

fun buildMapFromJson_loop :: "(string \<rightharpoonup> string) \<Rightarrow> pathUrlUnit list \<Rightarrow> (string \<rightharpoonup> string)" where
  "buildMapFromJson_loop pathMap [] = pathMap"
| "buildMapFromJson_loop pathMap (path # rest) =
     buildMapFromJson_loop (pathMap(Path_json path \<mapsto> URL path)) rest"

definition buildMapFromJson :: "pathUrlObjJson \<Rightarrow> (string \<rightharpoonup> string)" where
  "buildMapFromJson pathUrlObj = buildMapFromJson_loop Map.empty (PathURL pathUrlObj)"

section \<open>Version \<open>part_003\<close>: static maps only\<close>

definition MapHandler_p003 :: "(string \<rightharpoonup> string) \<Rightarrow> handler \<Rightarrow> handler" where
  "MapHandler_p003 pathsToUrls fallback r s =
     (case pathsToUrls (URL_Path r) of
        Some val \<Rightarrow> Ret () (http_Redirect val StatusPermanentRedirect s)
      | None \<Rightarrow> fallback r s)"

definition YAMLHandler_p003 ::
  "libs \<Rightarrow> bytes \<Rightarrow> string \<Rightarrow> handler \<Rightarrow> state \<Rightarrow> handler option \<times> error option" where
  "YAMLHandler_p003 L yaml yamlFilePath fallback s =
     (if yamlFilePath \<noteq> [] then
        (case ReadFile s yamlFilePath of
           (yamlFile, Some redErr) \<Rightarrow> (None, Some redErr)
         | (yamlFile, None) \<Rightarrow>
             (case parseYAML L yamlFile of
                (parsedYaml, Some err) \<Rightarrow> (None, Some err)
              | (parsedYaml, None) \<Rightarrow> (Some (MapHandler_p003 (buildMap parsedYaml) fallback), None)))
      else
        (case parseYAML L yaml of
           (parsedYaml, Some err) \<Rightarrow> (None, Some err)
         | (parsedYaml, None) \<Rightarrow> (Some (MapHandler_p003 (buildMap parsedYaml) fallback), None)))"

definition JSONHandler_p003 ::
  "libs \<Rightarrow> bytes \<Rightarrow> string \<Rightarrow> handler \<Rightarrow> state \<Rightarrow> handler option \<times> error option" where
  "JSONHandler_p003 L json jsonFilePath fallback s =
     (if jsonFilePath \<noteq> [] then
        (case ReadFile s jsonFilePath of
           (jsonFile, Some redErr) \<Rightarrow> (None, Some redErr)
         | (jsonFile, None) \<Rightarrow>
             (case parseJSON L jsonFile of
                (parsedJson, Some err) \<Rightarrow> (None, Some err)
              | (parsedJson, None) \<Rightarrow>
                  (Some (MapHandler_p003 (buildMapFromJson parsedJson) fallback), None)))
      else
        (case parseJSON L json of
           (parsedJson, Some err) \<Rightarrow> (None, Some err)
         | (parsedJson, None) \<Rightarrow>
             (Some (MapHandler_p003 (buildMapFromJson parsedJson) fallback), None)))"

section \<open>Version \<open>part_001\<close>: \<open>DBHandler\<close> and the seeder\<close>

definition MapHandler_p001 :: "(string \<rightharpoonup> string) \<Rightarrow> handler \<Rightarrow> handler" where
  "MapHandler_p001 pathsToUrls fallback r s =
     (let path = URL_Path r in
      case pathsToUrls path of
        Some dest \<Rightarrow> Ret () (http_Redirect dest StatusFound s)
      | None \<Rightarrow> fallback r s)"

definition YAMLHandler_p001 ::
  "libs \<Rightarrow> bytes \<Rightarrow> string \<Rightarrow> handler \<Rightarrow> state \<Rightarrow> handler option \<times> error option" where
  "YAMLHandler_p001 L yaml yamlFilePath fallback s =
     (if yamlFilePath \<noteq> [] then
        (case ReadFile s yamlFilePath of
           (yamlFile, Some redErr) \<Rightarrow> (None, Some redErr)
         | (yamlFile, None) \<Rightarrow>
             (case parseYAML L yamlFile of
                (parsedYaml, Some err) \<Rightarrow> (None, Some err)
              | (parsedYaml, None) \<Rightarrow> (Some (MapHandler_p001 (buildMap parsedYaml) fallback), None)))
      else
        (case parseYAML L yaml of
           (parsedYaml, Some err) \<Rightarrow> (None, Some err)
         | (parsedYaml, None) \<Rightarrow> (Some (MapHandler_p001 (buildMap parsedYaml) fallback), None)))"

definition JSONHandler_p001 ::
  "libs \<Rightarrow> bytes \<Rightarrow> string \<Rightarrow> handler \<Rightarrow> state \<Rightarrow> handler option \<times> error option" where
  "JSONHandler_p001 L json jsonFilePath fallback s =
     (if jsonFilePath \<noteq> [] then
        (case ReadFile s jsonFilePath of
           (jsonFile, Some redErr) \<Rightarrow> (None, Some redErr)
         | (jsonFile, None) \<Rightarrow>
             (case parseJSON L jsonFile of
                (parsedJson, Some err) \<Rightarrow> (None, Some err)
              | (parsedJson, None) \<Rightarrow>
                  (Some (MapHandler_p001 (buildMapFromJson parsedJson) fallback), None)))
      else
        (case parseJSON L json of
           (parsedJson, Some err) \<Rightarrow> (None, Some err)
         | (parsedJson, None) \<Rightarrow>
             (Some (MapHandler_p001 (buildMapFromJson parsedJson) fallback), None)))"

text \<open>
  \<open>jsonReader\<close> returns a nil map beside every error and for the empty file path. A nil
  Go map reads as the empty map (\<open>range\<close> over it runs no iteration), which is how it is
  embedded.
\<close>

definition jsonReader :: "libs \<Rightarrow> string \<Rightarrow> state \<Rightarrow> (string \<rightharpoonup> string) \<times> error option" where
  "jsonReader L filePath s =
     (if filePath \<noteq> [] then
        (case ReadFile s filePath of
           (jsonFile, Some redErr) \<Rightarrow> (Map.empty, Some redErr)
         | (jsonFile, None) \<Rightarrow>
             (case parseJSON L jsonFile of
                (parsedJson, Some errParse) \<Rightarrow> (Map.empty, Some errParse)
              | (parsedJson, None) \<Rightarrow> (buildMapFromJson parsedJson, None)))
      else (Map.empty, None))"

text \<open>
  The loop \<open>for k, v := range pathMap { err = b.Put(k, v) }\<close>: every \<open>Put\<close> overwrites
  \<open>err\<close>, so the loop ends with the error of the last \<open>Put\<close> (or the one it started with).
\<close>

fun put_loop :: "bucket \<Rightarrow> error option \<Rightarrow> (bytes \<times> bytes) list \<Rightarrow> bucket \<times> error option" where
  "put_loop b err [] = (b, err)"
| "put_loop b err ((k, v) # kvs) = (case Put b k v of (b', err') \<Rightarrow> put_loop b' err' kvs)"

text \<open>
  The body of the write transactions of \<open>loadDB\<close> and of \<open>JSONHandler\<close> in \<open>handler.go\<close>,
  from \<open>tx.CreateBucketIfNotExists\<close> to \<open>return err\<close>. Creating the bucket cannot fail
  here (the name is not empty and the transaction is writable), so the loop starts with
  a nil \<open>err\<close>.
\<close>

definition create_and_put :: "libs \<Rightarrow> (string \<rightharpoonup> string) \<Rightarrow> state \<Rightarrow> error option res" where
  "create_and_put L pathMap s =
     (let bs = CreateBucketIfNotExists (store s) PathRedirect in
      case bs PathRedirect of
        None \<Rightarrow> Panic NilPointer s
      | Some b \<Rightarrow>
          (case put_loop b None (range_map L pathMap) of
             (b', err) \<Rightarrow> Ret err (s\<lparr>store := bs(PathRedirect \<mapsto> b')\<rparr>)))"

definition loadDB :: "libs \<Rightarrow> db \<Rightarrow> state \<Rightarrow> error option res" where
  "loadDB L db s =
     (if db \<noteq> Nil_db then
        db_Update (\<lambda>tx.
          case jsonReader L ''../conf.json'' tx of
            (pathMap, Some err) \<Rightarrow> Ret (Some err) tx
          | (pathMap, None) \<Rightarrow> create_and_put L pathMap tx) s
      else Ret None s)"

text \<open>
  The closure \<open>DBHandler\<close> hands to \<open>db.View\<close>. \<open>tx.Bucket\<close> yields nil for a missing
  bucket, and \<open>Get\<close> on a nil bucket dereferences it.
\<close>

definition DBHandler_view :: "string \<Rightarrow> state \<Rightarrow> error option res" where
  "DBHandler_view path tx =
     (case store tx PathRedirect of
        None \<Rightarrow> Panic NilPointer tx
      | Some b \<Rightarrow>
          (let url = (case b path of Some bts \<Rightarrow> bts | None \<Rightarrow> [])
           in Ret None (http_Redirect url StatusPermanentRedirect tx)))"

definition DBHandler :: "libs \<Rightarrow> db \<Rightarrow> handler \<Rightarrow> handler" where
  "DBHandler L db fallback r s =
     (case loadDB L db s of
        Panic p s1 \<Rightarrow> Panic p s1
      | Ret (Some err) s1 \<Rightarrow> Panic (PanicError err) s1
      | Ret None s1 \<Rightarrow>
          (let path = URL_Path r in
           if db \<noteq> Nil_db then
             (case db_View (DBHandler_view path) s1 of
                Panic p s2 \<Rightarrow> Panic p s2
              | Ret (Some err) s2 \<Rightarrow> fallback r s2
              | Ret None s2 \<Rightarrow> Ret () s2)
           else Ret () s1))"

section \<open>Versions \<open>handler.go\<close> and \<open>part_002\<close>: a nullable store\<close>

text \<open>The closure \<open>MapHandler\<close> hands to \<open>db.View\<close>; \<open>string(v)\<close> of a nil slice is empty.\<close>

definition MapHandler_view :: "request \<Rightarrow> state \<Rightarrow> error option res" where
  "MapHandler_view r tx =
     (case store tx PathRedirect of
        None \<Rightarrow> Panic NilPointer tx
      | Some b \<Rightarrow>
          (let v = b (URL_Path r)
           in Ret None
                (http_Redirect (case v of Some bts \<Rightarrow> bts | None \<Rightarrow> []) StatusPermanentRedirect tx)))"

definition MapHandler :: "(string \<rightharpoonup> string) \<Rightarrow> db \<Rightarrow> handler \<Rightarrow> handler" where
  "MapHandler pathsToUrls db fallback r s =
     (if db \<noteq> Nil_db then
        (case db_View (MapHandler_view r) s of
           Panic p s1 \<Rightarrow> Panic p s1
         | Ret (Some err) s1 \<Rightarrow> fallback r s1
         | Ret None s1 \<Rightarrow> Ret () s1)
      else
        (case pathsToUrls (URL_Path r) of
           Some val \<Rightarrow> Ret () (http_Redirect val StatusPermanentRedirect s)
         | None \<Rightarrow> fallback r s))"

definition YAMLHandler ::
  "libs \<Rightarrow> bytes \<Rightarrow> string \<Rightarrow> handler \<Rightarrow> state \<Rightarrow> handler option \<times> error option" where
  "YAMLHandler L yaml yamlFilePath fallback s =
     (if yamlFilePath \<noteq> [] then
        (case ReadFile s yamlFilePath of
           (yamlFile, Some redErr) \<Rightarrow> (None, Some redErr)
         | (yamlFile, None) \<Rightarrow>
             (case parseYAML L yamlFile of
                (parsedYaml, Some err) \<Rightarrow> (None, Some err)
              | (parsedYaml, None) \<Rightarrow>
                  (Some (MapHandler (buildMap parsedYaml) Nil_db fallback), None)))
      else
        (case parseYAML L yaml of
           (parsedYaml, Some err) \<Rightarrow> (None, Some err)
         | (parsedYaml, None) \<Rightarrow> (Some (MapHandler (buildMap parsedYaml) Nil_db fallback), None)))"

text \<open>
  What both \<open>JSONHandler\<close>s do once the JSON is parsed. \<open>db.Update\<close> on a nil store
  dereferences it. The error of \<open>db.Update\<close> is assigned to \<open>err\<close> and never read: the
  function returns the handler with a nil error.
\<close>

definition JSONHandler_update ::
  "db \<Rightarrow> (state \<Rightarrow> error option res) \<Rightarrow> handler \<Rightarrow> state \<Rightarrow> (handler option \<times> error option) res"
  where
  "JSONHandler_update db fn h s =
     (if db = Nil_db then Panic NilPointer s
      else
        (case db_Update fn s of
           Panic p s1 \<Rightarrow> Panic p s1
         | Ret err s1 \<Rightarrow> Ret (Some h, None) s1))"

definition JSONHandler ::
  "libs \<Rightarrow> bytes \<Rightarrow> string \<Rightarrow> db \<Rightarrow> handler \<Rightarrow> state \<Rightarrow> (handler option \<times> error option) res"
  where
  "JSONHandler L json jsonFilePath db fallback s =
     (case
        (if jsonFilePath \<noteq> [] then
           (case ReadFile s jsonFilePath of
              (jsonFile, Some redErr) \<Rightarrow> Inl redErr
            | (jsonFile, None) \<Rightarrow> Inr (parseJSON L jsonFile))
         else Inr (parseJSON L json))
      of
        Inl redErr \<Rightarrow> Ret (None, Some redErr) s
      | Inr (parsedJson, Some err) \<Rightarrow> Ret (None, Some err) s
      | Inr (parsedJson, None) \<Rightarrow>
          (let pathMap = buildMapFromJson parsedJson
           in JSONHandler_update db (create_and_put L pathMap) (MapHandler pathMap db fallback) s))"

subsection \<open>\<open>part_002\<close>: JSON-encoded values\<close>

definition encodeJSON :: "libs \<Rightarrow> pathUrlUnit \<Rightarrow> bytes \<times> error option" where
  "encodeJSON L pathUrl =
     (case json_Marshal L pathUrl of
        (encoded, Some err) \<Rightarrow> (encoded, Some err)
      | (encoded, None) \<Rightarrow> (encoded, None))"

text \<open>
  The loop of the write transaction of \<open>part_002\<close>, over the parsed slice in its order.
  \<open>b\<close> is \<open>tx.Bucket\<close> of a bucket nobody created here: \<open>b.Put\<close> on nil dereferences it.
\<close>

fun put_encoded_loop :: "libs \<Rightarrow> error option \<Rightarrow> pathUrlUnit list \<Rightarrow> state \<Rightarrow> error option res" where
  "put_encoded_loop L err [] tx = Ret err tx"
| "put_encoded_loop L err (v # vs) tx =
     (case encodeJSON L v of
        (encoded, Some errJson) \<Rightarrow> Ret (Some errJson) tx
      | (encoded, None) \<Rightarrow>
          (case store tx PathRedirect of
             None \<Rightarrow> Panic NilPointer tx
           | Some b \<Rightarrow>
               (case Put b (Path_json v) encoded of
                  (b', err') \<Rightarrow>
                    put_encoded_loop L err' vs (tx\<lparr>store := (store tx)(PathRedirect \<mapsto> b')\<rparr>))))"

definition JSONHandler_p002 ::
  "libs \<Rightarrow> bytes \<Rightarrow> string \<Rightarrow> db \<Rightarrow> handler \<Rightarrow> state \<Rightarrow> (handler option \<times> error option) res"
  where
  "JSONHandler_p002 L json jsonFilePath db fallback s =
     (case
        (if jsonFilePath \<noteq> [] then
           (case ReadFile s jsonFilePath of
              (jsonFile, Some redErr) \<Rightarrow> Inl redErr
            | (jsonFile, None) \<Rightarrow> Inr (parseJSON L jsonFile))
         else Inr (parseJSON L json))
      of
        Inl redErr \<Rightarrow> Ret (None, Some redErr) s
      | Inr (parsedJson, Some err) \<Rightarrow> Ret (None, Some err) s
      | Inr (parsedJson, None) \<Rightarrow>
          JSONHandler_update db (put_encoded_loop L None (PathURL parsedJson))
            (MapHandler (buildMapFromJson parsedJson) db fallback) s)"

section \<open>Sample inputs\<close>

text \<open>
  Concrete inputs for the closed theorems below. \<open>sample_libs\<close> tabulates what the codecs
  return on the texts used here (\<open>encoding/json\<close> fills what it can and reports the
  first type error; the error's text is abbreviated); a text outside the table is
  answered with an error, and no theorem below reaches that case. Its \<open>json.Marshal\<close>
  is exact on units whose strings need no escaping. Its \<open>range\<close> order visits the key
  \<open>""\<close> before \<open>/a\<close>, \<open>/b\<close> and \<open>/urlshort-godoc\<close>.
\<close>

definition conf_one :: bytes where
  \<open>conf_one = ''{"PathUrl":[{"path":"/a","url":"x"}]}''\<close>

definition conf_blank_key :: bytes where
  \<open>conf_blank_key = ''{"PathUrl":[{"path":"","url":"x"},{"path":"/a","url":"y"}]}''\<close>

definition conf_blank_only :: bytes where
  \<open>conf_blank_only = ''{"PathUrl":[{"url":"x"}]}''\<close>

definition conf_wrong_type :: bytes where
  \<open>conf_wrong_type = ''{"PathUrl": [{"path": 123}]}''\<close>

definition yaml_one :: bytes where
  \<open>yaml_one = ''[{path: /a, url: x}]''\<close>

definition yaml_wrong_type :: bytes where
  \<open>yaml_wrong_type = ''{path: /a, url: x}''\<close>

definition sample_json_Unmarshal :: "bytes \<Rightarrow> pathUrlObjJson \<times> error option" where
  "sample_json_Unmarshal b =
     (if b = conf_one then (\<lparr>PathURL = [\<lparr>Path_json = ''/a'', URL = ''x''\<rparr>]\<rparr>, None)
      else if b = conf_blank_key then
        (\<lparr>PathURL = [\<lparr>Path_json = [], URL = ''x''\<rparr>, \<lparr>Path_json = ''/a'', URL = ''y''\<rparr>]\<rparr>, None)
      else if b = conf_blank_only then (\<lparr>PathURL = [\<lparr>Path_json = [], URL = ''x''\<rparr>]\<rparr>, None)
      else if b = conf_wrong_type then
        (\<lparr>PathURL = [\<lparr>Path_json = [], URL = []\<rparr>]\<rparr>,
         Some (UnmarshalError ''json: cannot unmarshal number into Go struct field of type string''))
      else (\<lparr>PathURL = []\<rparr>, Some (UnmarshalError ''json: outside the table'')))"

definition sample_yaml_Unmarshal :: "bytes \<Rightarrow> pathUrlObj list \<times> error option" where
  "sample_yaml_Unmarshal b =
     (if b = yaml_one then ([\<lparr>Path = ''/a'', Url = ''x''\<rparr>], None)
      else if b = yaml_wrong_type then
        ([], Some (UnmarshalError ''yaml: unmarshal errors: cannot unmarshal !!map into []urlshort.pathUrlObj''))
      else ([], Some (UnmarshalError ''yaml: outside the table'')))"

definition sample_json_Marshal :: "pathUrlUnit \<Rightarrow> bytes \<times> error option" where
  \<open>sample_json_Marshal u =
     (''{"path":"'' @ Path_json u @ ''","url":"'' @ URL u @ ''"}'', None)\<close>

definition sample_libs :: libs where
  "sample_libs =
     \<lparr>yaml_Unmarshal = sample_yaml_Unmarshal,
      json_Unmarshal = sample_json_Unmarshal,
      json_Marshal = sample_json_Marshal,
      range_keys = (\<lambda>m. filter (\<lambda>k. m k \<noteq> None) [[], ''/a'', ''/b'', ''/urlshort-godoc''])\<rparr>"

text \<open>An empty response, a store and the files on disk.\<close>

definition fresh :: "buckets \<Rightarrow> (string \<rightharpoonup> bytes) \<Rightarrow> state" where
  "fresh bs fs = \<lparr>resp = [], store = bs, files = fs\<rparr>"

text \<open>
  Serving one request with the handler a constructor returned; \<open>None\<close> when the
  constructor returned no handler or panicked.
\<close>

definition serve :: "(handler option \<times> error option) res \<Rightarrow> request \<Rightarrow> unit res option" where
  "serve c r =
     (case c of
        Ret (Some h, err) s \<Rightarrow> Some (h r (s\<lparr>resp := []\<rparr>))
      | Ret (None, err) s \<Rightarrow> None
      | Panic p s \<Rightarrow> None)"

text \<open>A map all of whose entries \<open>Put\<close> accepts.\<close>

definition putable :: "(string \<rightharpoonup> string) \<Rightarrow> bool" where
  "putable m \<longleftrightarrow>
     (\<forall>k v. m k = Some v \<longrightarrow> k \<noteq> [] \<and> length k \<le> MaxKeySize \<and> length v \<le> MaxValueSize)"

section \<open>Evaluation and basic facts of the handlers\<close>

lemmas sample_defs = sample_libs_def sample_json_Unmarshal_def sample_yaml_Unmarshal_def
  sample_json_Marshal_def conf_one_def conf_blank_key_def conf_blank_only_def
  conf_wrong_type_def yaml_one_def yaml_wrong_type_def fresh_def PathRedirect_def

lemmas seed_defs = loadDB_def db_Update_def jsonReader_def ReadFile_def parseJSON_def
  buildMapFromJson_def create_and_put_def CreateBucketIfNotExists_def range_map_def
  Put_def MaxKeySize_def MaxValueSize_def

lemmas view_defs = db_View_def DBHandler_view_def MapHandler_view_def http_Redirect_def
  StatusPermanentRedirect_def StatusFound_def

subsection \<open>Static maps\<close>

lemma MapHandler_p003_miss:
  "pathsToUrls (URL_Path r) = None \<Longrightarrow> MapHandler_p003 pathsToUrls fallback r s = fallback r s"
  by (simp add: MapHandler_p003_def)

lemma MapHandler_p001_miss:
  "pathsToUrls (URL_Path r) = None \<Longrightarrow> MapHandler_p001 pathsToUrls fallback r s = fallback r s"
  by (simp add: MapHandler_p001_def)

lemma MapHandler_static_miss:
  "pathsToUrls (URL_Path r) = None \<Longrightarrow> MapHandler pathsToUrls Nil_db fallback r s = fallback r s"
  by (simp add: MapHandler_def)

lemma MapHandler_p003_hit:
  "pathsToUrls (URL_Path r) = Some u \<Longrightarrow>
   MapHandler_p003 pathsToUrls fallback r s = Ret () (s\<lparr>resp := resp s @ [Redirect u 308]\<rparr>)"
  by (simp add: MapHandler_p003_def view_defs)

lemma MapHandler_p001_hit:
  "pathsToUrls (URL_Path r) = Some u \<Longrightarrow>
   MapHandler_p001 pathsToUrls fallback r s = Ret () (s\<lparr>resp := resp s @ [Redirect u 302]\<rparr>)"
  by (simp add: MapHandler_p001_def view_defs)

lemma MapHandler_static_hit:
  "pathsToUrls (URL_Path r) = Some u \<Longrightarrow>
   MapHandler pathsToUrls Nil_db fallback r s = Ret () (s\<lparr>resp := resp s @ [Redirect u 308]\<rparr>)"
  by (simp add: MapHandler_def view_defs)

subsection \<open>The store behind \<open>MapHandler\<close>\<close>

lemma MapHandler_no_bucket:
  "store s PathRedirect = None \<Longrightarrow> MapHandler pathsToUrls Open_db fallback r s = Panic NilPointer s"
  by (simp add: MapHandler_def db_View_def MapHandler_view_def)

lemma MapHandler_bucket:
  "store s PathRedirect = Some b \<Longrightarrow>
   MapHandler pathsToUrls Open_db fallback r s =
     Ret () (s\<lparr>resp := resp s @ [Redirect (case b (URL_Path r) of Some bts \<Rightarrow> bts | None \<Rightarrow> []) 308]\<rparr>)"
  by (simp add: MapHandler_def view_defs)

lemma DBHandler_seeded:
  "loadDB L Open_db s = Ret None s1 \<Longrightarrow> store s1 PathRedirect = Some b \<Longrightarrow>
   DBHandler L Open_db fallback r s =
     Ret () (s1\<lparr>resp := resp s1 @ [Redirect (case b (URL_Path r) of Some bts \<Rightarrow> bts | None \<Rightarrow> []) 308]\<rparr>)"
  by (simp add: DBHandler_def view_defs)

subsection \<open>Chains of static sources\<close>

lemma chain_static_first:
  assumes "A (URL_Path r) = None"
  shows "MapHandler_p003 A (MapHandler_p003 B dflt) r s = MapHandler_p003 B dflt r s"
    and "MapHandler_p001 A (MapHandler_p001 B dflt) r s = MapHandler_p001 B dflt r s"
    and "MapHandler A Nil_db (MapHandler B db dflt) r s = MapHandler B db dflt r s"
  using assms by (simp_all add: MapHandler_p003_def MapHandler_p001_def MapHandler_def)

lemma chain_static_sources:
  assumes "A (URL_Path r) = None" and "B (URL_Path r) = Some u"
  shows "MapHandler_p003 A (MapHandler_p003 B dflt) r s = Ret () (s\<lparr>resp := resp s @ [Redirect u 308]\<rparr>)"
    and "MapHandler_p001 A (MapHandler_p001 B dflt) r s = Ret () (s\<lparr>resp := resp s @ [Redirect u 302]\<rparr>)"
    and "MapHandler A Nil_db (MapHandler B Nil_db dflt) r s = Ret () (s\<lparr>resp := resp s @ [Redirect u 308]\<rparr>)"
  using assms
  by (simp_all add: chain_static_first MapHandler_p003_hit MapHandler_p001_hit MapHandler_static_hit)

subsection \<open>Seeding\<close>

lemma create_and_put_returns:
  "\<exists>e s1. create_and_put L m s = Ret e s1 \<and> store s1 PathRedirect \<noteq> None"
  by (auto simp: create_and_put_def CreateBucketIfNotExists_def Let_def
      split: option.splits prod.splits)

lemma loadDB_bucket:
  assumes "loadDB L Open_db s = Ret None s1"
  shows "store s1 PathRedirect \<noteq> None"
proof (cases "jsonReader L ''../conf.json'' s")
  case (Pair pathMap e)
  show ?thesis
  proof (cases e)
    case None
    obtain e1 s2 where c: "create_and_put L pathMap s = Ret e1 s2" "store s2 PathRedirect \<noteq> None"
      using create_and_put_returns by blast
    with assms Pair None show ?thesis
      by (cases e1) (auto simp: loadDB_def db_Update_def)
  next
    case (Some err)
    with assms Pair show ?thesis
      by (simp add: loadDB_def db_Update_def)
  qed
qed

lemma DBHandler_returns_after_seed:
  assumes "loadDB L db s = Ret None s1"
  shows "\<exists>s2. DBHandler L db fallback r s = Ret () s2"
proof (cases db)
  case Nil_db
  with assms show ?thesis by (simp add: DBHandler_def)
next
  case Open_db
  with assms obtain b where "store s1 PathRedirect = Some b"
    using loadDB_bucket by blast
  with assms Open_db show ?thesis
    by (simp add: DBHandler_seeded)
qed

lemma loadDB_unreadable:
  "files s ''../conf.json'' = None \<Longrightarrow>
   loadDB L Open_db s = Ret (Some (ReadError ''../conf.json'')) s"
  by (simp add: loadDB_def db_Update_def jsonReader_def ReadFile_def)

subsection \<open>What a write transaction of valid pairs leaves in the store\<close>

lemma put_loop_all_valid:
  assumes "\<forall>(k, v) \<in> set kvs. k \<noteq> [] \<and> length k \<le> MaxKeySize \<and> length v \<le> MaxValueSize"
  shows "put_loop b None kvs = (b ++ map_of (rev kvs), None)"
  using assms
proof (induction kvs arbitrary: b)
  case Nil
  then show ?case by simp
next
  case (Cons kv kvs)
  obtain k v where kv: "kv = (k, v)" by (cases kv)
  with Cons.prems have ok: "Put b k v = (b(k \<mapsto> v), None)"
    by (simp add: Put_def)
  have "put_loop b None (kv # kvs) = put_loop (b(k \<mapsto> v)) None kvs"
    using kv ok by simp
  also have "\<dots> = ((b(k \<mapsto> v)) ++ map_of (rev kvs), None)"
    using Cons.IH Cons.prems by simp
  also have "(b(k \<mapsto> v)) ++ map_of (rev kvs) = b ++ map_of (rev (kv # kvs))"
    by (simp add: kv map_add_upd_left fun_eq_iff map_add_def split: option.splits)
  finally show ?case .
qed

lemma set_range_map:
  "set (range_map L m) = {(k, v). k \<in> set (range_keys L m) \<and> m k = Some v}"
proof -
  have "set (List.map_filter (\<lambda>k. case m k of None \<Rightarrow> None | Some v \<Rightarrow> Some (k, v)) ks)
        = {(k, v). k \<in> set ks \<and> m k = Some v}" for ks
    by (induction ks) (auto split: option.splits)
  then show ?thesis by (simp add: range_map_def)
qed

lemma map_of_agrees:
  assumes "\<And>k v. (k, v) \<in> set kvs \<Longrightarrow> m k = Some v" and "(k, v) \<in> set kvs"
  shows "map_of kvs k = Some v"
proof -
  from assms(2) have "k \<in> fst ` set kvs" by force
  then obtain w where w: "map_of kvs k = Some w"
    by (metis domD dom_map_of_conv_image_fst)
  then have "(k, w) \<in> set kvs" by (rule map_of_SomeD)
  then have "m k = Some w" by (rule assms(1))
  moreover have "m k = Some v" using assms(2) by (rule assms(1))
  ultimately show ?thesis using w by simp
qed

lemma create_and_put_writes:
  assumes "putable m" and "m p = Some u" and "p \<in> set (range_keys L m)"
  shows "\<exists>s1 b. create_and_put L m s = Ret None s1 \<and> store s1 PathRedirect = Some b
           \<and> b p = Some u \<and> resp s1 = resp s \<and> files s1 = files s"
proof -
  let ?kvs = "range_map L m"
  have valid: "\<forall>(k, v) \<in> set ?kvs. k \<noteq> [] \<and> length k \<le> MaxKeySize \<and> length v \<le> MaxValueSize"
    using assms(1) by (auto simp: putable_def set_range_map)
  have "(p, u) \<in> set (rev ?kvs)"
    using assms(2,3) by (simp add: set_range_map)
  moreover have "m k = Some v" if "(k, v) \<in> set (rev ?kvs)" for k v
    using that by (simp add: set_range_map)
  ultimately have last: "map_of (rev ?kvs) p = Some u"
    by (rule map_of_agrees [rotated])
  obtain b0 where b0: "CreateBucketIfNotExists (store s) PathRedirect PathRedirect = Some b0"
    by (cases "store s PathRedirect") (simp_all add: CreateBucketIfNotExists_def)
  have "create_and_put L m s =
          Ret None (s\<lparr>store := (CreateBucketIfNotExists (store s) PathRedirect)
                                (PathRedirect \<mapsto> b0 ++ map_of (rev ?kvs))\<rparr>)"
    using b0 by (simp add: create_and_put_def Let_def put_loop_all_valid [OF valid])
  moreover have "(b0 ++ map_of (rev ?kvs)) p = Some u"
    using last by (simp add: map_add_def)
  ultimately show ?thesis by simp
qed

lemma JSONHandler_written_pairs_resolve:
  assumes parse: "json_Unmarshal L json = (parsedJson, None)"
    and m: "m = buildMapFromJson parsedJson"
    and ok: "putable m" "m p = Some u" "p \<in> set (range_keys L m)"
  shows "\<exists>s1. JSONHandler L json [] Open_db fallback s = Ret (Some (MapHandler m Open_db fallback), None) s1
           \<and> MapHandler m Open_db fallback \<lparr>URL_Path = p\<rparr> s1
             = Ret () (s1\<lparr>resp := resp s1 @ [Redirect u 308]\<rparr>)"
proof -
  obtain s1 b where w: "create_and_put L m s = Ret None s1" "store s1 PathRedirect = Some b"
      "b p = Some u"
    using create_and_put_writes [OF ok] by blast
  have "JSONHandler L json [] Open_db fallback s = Ret (Some (MapHandler m Open_db fallback), None) s1"
    using parse m w(1)
    by (simp add: JSONHandler_def parseJSON_def JSONHandler_update_def db_Update_def)
  moreover have "MapHandler m Open_db fallback \<lparr>URL_Path = p\<rparr> s1
                 = Ret () (s1\<lparr>resp := resp s1 @ [Redirect u 308]\<rparr>)"
    using w(2,3) by (simp add: MapHandler_bucket)
  ultimately show ?thesis by blast
qed

lemma DBHandler_seeded_pairs_resolve:
  assumes conf: "files s ''../conf.json'' = Some c"
    and parse: "json_Unmarshal L c = (parsedJson, None)"
    and m: "m = buildMapFromJson parsedJson"
    and ok: "putable m" "m p = Some u" "p \<in> set (range_keys L m)"
  shows "\<exists>s1. DBHandler L Open_db fallback \<lparr>URL_Path = p\<rparr> s
             = Ret () (s1\<lparr>resp := resp s @ [Redirect u 308]\<rparr>)"
proof -
  obtain s1 b where w: "create_and_put L m s = Ret None s1" "store s1 PathRedirect = Some b"
      "b p = Some u" "resp s1 = resp s"
    using create_and_put_writes [OF ok] by blast
  have "loadDB L Open_db s = Ret None s1"
    using conf parse m w(1)
    by (simp add: loadDB_def db_Update_def jsonReader_def ReadFile_def parseJSON_def)
  then have "DBHandler L Open_db fallback \<lparr>URL_Path = p\<rparr> s
             = Ret () (s1\<lparr>resp := resp s1 @ [Redirect u 308]\<rparr>)"
    using w(2,3) by (simp add: DBHandler_seeded)
  with w(4) show ?thesis by auto
qed

section \<open>Claims\<close>

subsection \<open>The path map builder\<close>

lemma buildMap_loop_foldl:
  "buildMap_loop m ps = foldl (\<lambda>m p. m(Path p \<mapsto> Url p)) m ps"
  by (induction ps arbitrary: m) simp_all

lemma buildMap_loop_absent:
  "k \<notin> Path ` set ps \<Longrightarrow> buildMap_loop m ps k = m k"
  by (induction ps arbitrary: m) auto

lemma buildMap_loop_append:
  "buildMap_loop m (xs @ ys) = buildMap_loop (buildMap_loop m xs) ys"
  by (induction xs arbitrary: m) simp_all

lemma buildMap_loop_last:
  assumes "Path p \<notin> Path ` set ys"
  shows "buildMap_loop m (xs @ p # ys) (Path p) = Some (Url p)"
proof -
  have "buildMap_loop m (xs @ p # ys) =
        buildMap_loop ((buildMap_loop m xs)(Path p \<mapsto> Url p)) ys"
    by (simp add: buildMap_loop_append)
  then show ?thesis
    using assms by (simp add: buildMap_loop_absent)
qed

text \<open>
  C5. \<open>buildMap\<close> is the left-to-right fold that sets \<open>pathMap[path.Path] = path.Url\<close>
  for each pair in order. It is a total function, so no sequence makes it fail. The
  last pair of a path decides its url, a path that no pair has is absent, and the
  sequence \<open>(a, x), (a, y)\<close> maps \<open>a\<close> to \<open>y\<close>.
\<close>

theorem buildMap_last_wins:
  "buildMap ps = foldl (\<lambda>m p. m(Path p \<mapsto> Url p)) Map.empty ps
   \<and> (\<forall>xs p ys. ps = xs @ p # ys \<and> Path p \<notin> Path ` set ys
          \<longrightarrow> buildMap ps (Path p) = Some (Url p))
   \<and> (\<forall>k. k \<notin> Path ` set ps \<longrightarrow> buildMap ps k = None)
   \<and> buildMap [\<lparr>Path = a, Url = x\<rparr>, \<lparr>Path = a, Url = y\<rparr>] a = Some y"
  by (simp add: buildMap_def buildMap_loop_foldl [symmetric] buildMap_loop_last
      buildMap_loop_absent)

theorem buildMap_last_wins_witness:
  "buildMap [\<lparr>Path = ''/a'', Url = ''x''\<rparr>, \<lparr>Path = ''/a'', Url = ''y''\<rparr>,
             \<lparr>Path = ''/b'', Url = ''z''\<rparr>] ''/a'' = Some ''y''
   \<and> buildMap [\<lparr>Path = ''/a'', Url = ''x''\<rparr>, \<lparr>Path = ''/a'', Url = ''y''\<rparr>,
               \<lparr>Path = ''/b'', Url = ''z''\<rparr>] ''/c'' = None"
proof -
  let ?ps = "[\<lparr>Path = ''/a'', Url = ''x''\<rparr>, \<lparr>Path = ''/a'', Url = ''y''\<rparr>,
              \<lparr>Path = ''/b'', Url = ''z''\<rparr>]"
  note t = buildMap_last_wins [of ?ps]
  have split: "?ps = [\<lparr>Path = ''/a'', Url = ''x''\<rparr>] @ \<lparr>Path = ''/a'', Url = ''y''\<rparr>
                 # [\<lparr>Path = ''/b'', Url = ''z''\<rparr>]"
    by simp
  have fresh: "Path \<lparr>Path = ''/a'', Url = ''y''\<rparr> \<notin> Path ` set [\<lparr>Path = ''/b'', Url = ''z''\<rparr>]"
    by simp
  have a: "buildMap ?ps (Path \<lparr>Path = ''/a'', Url = ''y''\<rparr>)
           = Some (Url \<lparr>Path = ''/a'', Url = ''y''\<rparr>)"
    using t split fresh by blast
  have "''/c'' \<notin> Path ` set ?ps" by simp
  then have c: "buildMap ?ps ''/c'' = None"
    using t by blast
  from a c show ?thesis by simp
qed

subsection \<open>Handlers, store and constructors\<close>

text \<open>
  C1. Claim: a path that was never inserted into the map or the store resolves to
  not-found, and the handler calls its fallback once and issues no redirect. The
  static branch does so (\<open>MapHandler_static_miss\<close>, \<open>MapHandler_p001_miss\<close>,
  \<open>MapHandler_p003_miss\<close>). The store branch does not: \<open>Get\<close> returns nil for the missing
  key, the closure redirects to \<open>string(nil)\<close>, the empty url, with 308 and returns a nil
  error, so the fallback behind \<open>if err != nil\<close> is never called. Evaluated here for
  \<open>MapHandler\<close> of \<open>handler.go\<close> over a store holding only \<open>/a\<close>, and for \<open>DBHandler\<close>
  seeded from a file holding only \<open>/a\<close>, both with \<open>hello\<close> as fallback and a request
  for \<open>/unknown\<close>.
\<close>

theorem store_miss_redirects_to_empty_url:
  "MapHandler Map.empty Open_db hello \<lparr>URL_Path = ''/unknown''\<rparr>
     (fresh [PathRedirect \<mapsto> [''/a'' \<mapsto> ''x'']] Map.empty)
   = Ret () \<lparr>resp = [Redirect [] 308], store = [PathRedirect \<mapsto> [''/a'' \<mapsto> ''x'']],
              files = Map.empty\<rparr>
   \<and> DBHandler sample_libs Open_db hello \<lparr>URL_Path = ''/unknown''\<rparr>
       (fresh Map.empty [''../conf.json'' \<mapsto> conf_one])
     = Ret () \<lparr>resp = [Redirect [] 308], store = [PathRedirect \<mapsto> [''/a'' \<mapsto> ''x'']],
                files = [''../conf.json'' \<mapsto> conf_one]\<rparr>"
  by (simp add: MapHandler_def DBHandler_def seed_defs view_defs sample_defs)

text \<open>
  C2. Claim: a pair \<open>(p, u)\<close> written by the batch upsert resolves to exactly \<open>u\<close>.
  \<open>JSONHandler\<close> of \<open>handler.go\<close> and the seeder of \<open>part_001\<close> keep it
  (\<open>JSONHandler_written_pairs_resolve\<close>, \<open>DBHandler_seeded_pairs_resolve\<close>).
  \<open>JSONHandler\<close> of \<open>part_002\<close> stores \<open>json.Marshal\<close> of the whole unit under the
  path, and \<open>MapHandler\<close> redirects to the stored bytes as they are: the request for
  \<open>/a\<close> is redirected to the JSON text of the unit, not to \<open>x\<close>. On a store without
  the bucket the same constructor dereferences the nil bucket.
\<close>

theorem encoded_value_is_redirect_target:
  \<open>serve (JSONHandler_p002 sample_libs conf_one [] Open_db hello
            (fresh [PathRedirect \<mapsto> Map.empty] Map.empty)) \<lparr>URL_Path = ''/a''\<rparr>
   = Some (Ret () \<lparr>resp = [Redirect ''{"path":"/a","url":"x"}'' 308],
                   store = [PathRedirect \<mapsto> [''/a'' \<mapsto> ''{"path":"/a","url":"x"}'']],
                   files = Map.empty\<rparr>)
   \<and> JSONHandler_p002 sample_libs conf_one [] Open_db hello (fresh Map.empty Map.empty)
     = Panic NilPointer (fresh Map.empty Map.empty)\<close>
  by (simp add: JSONHandler_p002_def JSONHandler_update_def serve_def MapHandler_def
      encodeJSON_def seed_defs view_defs sample_defs)

text \<open>
  C3. Claim: the batch upsert is all-or-nothing, and a failing \<open>Put\<close> makes the whole
  batch fail. The loop overwrites \<open>err\<close> at every \<open>Put\<close> and the closure returns the last
  one: with the pairs \<open>("", x), (/a, y)\<close> visited in this order, \<open>Put\<close> of the empty key
  fails with \<open>ErrKeyRequired\<close>, \<open>Put\<close> of \<open>/a\<close> succeeds, the transaction commits and
  \<open>/a\<close> is served, in \<open>JSONHandler\<close> of \<open>handler.go\<close> as in \<open>loadDB\<close>. When the last
  \<open>Put\<close> fails (the single pair \<open>("", x)\<close>) the transaction is rolled back, but
  \<open>JSONHandler\<close> drops the error of \<open>db.Update\<close> and returns a handler and a nil error.
\<close>

theorem failed_put_is_committed:
  "Put Map.empty [] ''x'' = (Map.empty, Some ErrKeyRequired)
   \<and> JSONHandler sample_libs conf_blank_key [] Open_db hello (fresh Map.empty Map.empty)
     = Ret (Some (MapHandler [[] \<mapsto> ''x'', ''/a'' \<mapsto> ''y''] Open_db hello), None)
         (fresh [PathRedirect \<mapsto> [''/a'' \<mapsto> ''y'']] Map.empty)
   \<and> serve (JSONHandler sample_libs conf_blank_key [] Open_db hello (fresh Map.empty Map.empty))
        \<lparr>URL_Path = ''/a''\<rparr>
     = Some (Ret () \<lparr>resp = [Redirect ''y'' 308], store = [PathRedirect \<mapsto> [''/a'' \<mapsto> ''y'']],
                     files = Map.empty\<rparr>)
   \<and> loadDB sample_libs Open_db (fresh Map.empty [''../conf.json'' \<mapsto> conf_blank_key])
     = Ret None (fresh [PathRedirect \<mapsto> [''/a'' \<mapsto> ''y'']] [''../conf.json'' \<mapsto> conf_blank_key])
   \<and> JSONHandler sample_libs conf_blank_only [] Open_db hello (fresh Map.empty Map.empty)
     = Ret (Some (MapHandler [[] \<mapsto> ''x''] Open_db hello), None) (fresh Map.empty Map.empty)"
  by (simp add: JSONHandler_def JSONHandler_update_def serve_def MapHandler_def seed_defs
      view_defs sample_defs)

text \<open>
  C4. Claim: when the bucket \<open>PathRedirect\<close> does not exist or the key is absent, the
  resolution reports not-found and the handler falls back, without crashing and
  without a redirect. In \<open>MapHandler\<close> of \<open>handler.go\<close> and \<open>part_002\<close>, \<open>tx.Bucket\<close> of
  a missing bucket is nil and \<open>b.Get\<close> dereferences it: the request panics. With the
  bucket present and the key absent, \<open>MapHandler\<close> and \<open>DBHandler\<close> redirect to the
  empty url with 308 and never call \<open>hello\<close>.
\<close>

theorem missing_bucket_panics:
  "MapHandler Map.empty Open_db hello \<lparr>URL_Path = ''/a''\<rparr> (fresh Map.empty Map.empty)
   = Panic NilPointer (fresh Map.empty Map.empty)
   \<and> MapHandler Map.empty Open_db hello \<lparr>URL_Path = ''/a''\<rparr>
       (fresh [PathRedirect \<mapsto> Map.empty] Map.empty)
     = Ret () \<lparr>resp = [Redirect [] 308], store = [PathRedirect \<mapsto> Map.empty], files = Map.empty\<rparr>
   \<and> DBHandler sample_libs Open_db hello \<lparr>URL_Path = ''/b''\<rparr>
       (fresh Map.empty [''../conf.json'' \<mapsto> conf_one])
     = Ret () \<lparr>resp = [Redirect [] 308], store = [PathRedirect \<mapsto> [''/a'' \<mapsto> ''x'']],
                files = [''../conf.json'' \<mapsto> conf_one]\<rparr>"
  by (simp add: MapHandler_def DBHandler_def seed_defs view_defs sample_defs)

text \<open>
  C6. Claim: for lookup sources A and B and a path found only in B, the chain of a
  handler over A falling back to a handler over B falling back to the default
  produces B's redirect target. Chains whose first source is a static map do
  (\<open>chain_static_sources\<close>, \<open>chain_static_first\<close>). The chain \<open>main.go\<close> builds,
  \<open>DBHandler\<close> over the store falling back to \<open>MapHandler\<close> over the literal map falling
  back to \<open>hello\<close>, does not: for \<open>/urlshort-godoc\<close>, which only the map holds, the
  store handler redirects to the empty url and the map is never consulted.
\<close>

theorem store_first_chain_skips_second_source:
  "DBHandler sample_libs Open_db
     (MapHandler_p001 [''/urlshort-godoc'' \<mapsto> ''https://godoc.org/github.com/gophercises/urlshort'']
        hello)
     \<lparr>URL_Path = ''/urlshort-godoc''\<rparr> (fresh Map.empty [''../conf.json'' \<mapsto> conf_one])
   = Ret () \<lparr>resp = [Redirect [] 308], store = [PathRedirect \<mapsto> [''/a'' \<mapsto> ''x'']],
              files = [''../conf.json'' \<mapsto> conf_one]\<rparr>"
  by (simp add: DBHandler_def seed_defs view_defs sample_defs)

text \<open>
  C7. Claim: every per-request failure, a seed failure included, is recovered by
  the fallback, no request ends abnormally, and an absent external source is a no-op
  for the seeder. Counterexample: with no \<open>../conf.json\<close> on disk, \<open>DBHandler\<close> panics
  with the read error.
\<close>

theorem seed_failure_counterexample:
  "DBHandler sample_libs Open_db hello \<lparr>URL_Path = ''/a''\<rparr> (fresh Map.empty Map.empty)
   = Panic (PanicError (ReadError ''../conf.json'')) (fresh Map.empty Map.empty)"
  by (simp add: DBHandler_def loadDB_unreadable fresh_def)

text \<open>
  C7, amended. In \<open>DBHandler\<close> a seed failure is not recovered: when \<open>loadDB\<close> returns
  an error the handler panics with that error, whatever the fallback, and an
  unreadable \<open>../conf.json\<close> is such an error. When \<open>loadDB\<close> succeeds the request
  returns without a panic. \<open>jsonReader\<close> is a no-op (empty map, nil error) for the empty
  file path only; a missing file at a non-empty path is returned as an error.
\<close>

theorem seed_failure_panics:
  "(loadDB L db s = Ret (Some err) s1 \<longrightarrow> DBHandler L db fallback r s = Panic (PanicError err) s1)
   \<and> (files s ''../conf.json'' = None \<longrightarrow>
        DBHandler L Open_db fallback r s = Panic (PanicError (ReadError ''../conf.json'')) s)
   \<and> (loadDB L db t = Ret None t1 \<longrightarrow> (\<exists>t2. DBHandler L db fallback r t = Ret () t2))
   \<and> jsonReader L [] s = (Map.empty, None)
   \<and> (filePath \<noteq> [] \<and> files s filePath = None \<longrightarrow>
        jsonReader L filePath s = (Map.empty, Some (ReadError filePath)))"
proof -
  have a: "loadDB L db s = Ret (Some err) s1 \<longrightarrow> DBHandler L db fallback r s = Panic (PanicError err) s1"
    by (simp add: DBHandler_def)
  have b: "files s ''../conf.json'' = None \<longrightarrow>
        DBHandler L Open_db fallback r s = Panic (PanicError (ReadError ''../conf.json'')) s"
    by (simp add: DBHandler_def loadDB_unreadable)
  have c: "loadDB L db t = Ret None t1 \<longrightarrow> (\<exists>t2. DBHandler L db fallback r t = Ret () t2)"
    using DBHandler_returns_after_seed by blast
  have d: "jsonReader L [] s = (Map.empty, None)"
    by (simp add: jsonReader_def)
  have e: "filePath \<noteq> [] \<and> files s filePath = None \<longrightarrow>
        jsonReader L filePath s = (Map.empty, Some (ReadError filePath))"
    by (simp add: jsonReader_def ReadFile_def)
  from a b c d e show ?thesis by blast
qed

theorem seed_failure_panics_witness:
  "DBHandler sample_libs Open_db hello \<lparr>URL_Path = ''/a''\<rparr> (fresh Map.empty Map.empty)
   = Panic (PanicError (ReadError ''../conf.json'')) (fresh Map.empty Map.empty)
   \<and> (\<exists>s2. DBHandler sample_libs Open_db hello \<lparr>URL_Path = ''/a''\<rparr>
              (fresh Map.empty [''../conf.json'' \<mapsto> conf_one]) = Ret () s2)
   \<and> jsonReader sample_libs ''../conf.json'' (fresh Map.empty Map.empty)
     = (Map.empty, Some (ReadError ''../conf.json''))"
proof -
  let ?bad = "fresh Map.empty Map.empty"
  let ?good = "fresh Map.empty [''../conf.json'' \<mapsto> conf_one]"
  let ?seeded = "fresh [PathRedirect \<mapsto> [''/a'' \<mapsto> ''x'']] [''../conf.json'' \<mapsto> conf_one]"
  let ?e = "ReadError ''../conf.json''"
  have fails: "loadDB sample_libs Open_db ?bad = Ret (Some ?e) ?bad"
    by (simp add: seed_defs sample_defs)
  have absent: "files ?bad ''../conf.json'' = None"
    by (simp add: fresh_def)
  have named: "''../conf.json'' \<noteq> [] \<and> files ?bad ''../conf.json'' = None"
    by (simp add: fresh_def)
  have seeds: "loadDB sample_libs Open_db ?good = Ret None ?seeded"
    by (simp add: seed_defs sample_defs)
  note t = seed_failure_panics
    [where L = sample_libs and db = Open_db and s = ?bad and err = ?e and ?s1.0 = ?bad
       and fallback = hello and r = "\<lparr>URL_Path = ''/a''\<rparr>" and filePath = "''../conf.json''"
       and t = ?good and ?t1.0 = ?seeded]
  from t fails absent named seeds show ?thesis by blast
qed

text \<open>
  C8. Claim: every successful resolution, in every version, redirects with the one
  status 308 to the resolved url. Counterexample: \<open>MapHandler\<close> of \<open>part_001\<close> redirects
  with \<open>http.StatusFound\<close>, 302.
\<close>

theorem status_302_counterexample:
  "MapHandler_p001 [''/a'' \<mapsto> ''x''] hello \<lparr>URL_Path = ''/a''\<rparr> (fresh Map.empty Map.empty)
   = Ret () \<lparr>resp = [Redirect ''x'' 302], store = Map.empty, files = Map.empty\<rparr>
   \<and> MapHandler_p001 [''/a'' \<mapsto> ''x''] hello \<lparr>URL_Path = ''/a''\<rparr> (fresh Map.empty Map.empty)
   \<noteq> Ret () \<lparr>resp = [Redirect ''x'' 308], store = Map.empty, files = Map.empty\<rparr>"
  by (simp add: MapHandler_p001_def view_defs sample_defs)

text \<open>
  C8, amended. Every successful resolution emits one redirect whose target is the
  resolved url (the value of the map, or the bytes stored under the path). Its
  status is 308 in \<open>part_003\<close>, in \<open>MapHandler\<close> of \<open>part_002\<close> and \<open>handler.go\<close> (map and
  store branch) and in \<open>DBHandler\<close>; it is 302 in \<open>MapHandler\<close> of \<open>part_001\<close>.
\<close>

theorem redirect_status_by_version:
  "(pathsToUrls (URL_Path r) = Some u \<longrightarrow>
      MapHandler_p003 pathsToUrls fallback r s = Ret () (s\<lparr>resp := resp s @ [Redirect u 308]\<rparr>)
    \<and> MapHandler pathsToUrls Nil_db fallback r s = Ret () (s\<lparr>resp := resp s @ [Redirect u 308]\<rparr>)
    \<and> MapHandler_p001 pathsToUrls fallback r s = Ret () (s\<lparr>resp := resp s @ [Redirect u 302]\<rparr>))
   \<and> (store s PathRedirect = Some b \<and> b (URL_Path r) = Some u \<longrightarrow>
        MapHandler pathsToUrls Open_db fallback r s = Ret () (s\<lparr>resp := resp s @ [Redirect u 308]\<rparr>))
   \<and> (loadDB L Open_db s = Ret None s1 \<and> store s1 PathRedirect = Some b \<and> b (URL_Path r) = Some u \<longrightarrow>
        DBHandler L Open_db fallback r s = Ret () (s1\<lparr>resp := resp s1 @ [Redirect u 308]\<rparr>))"
  by (simp add: MapHandler_p003_hit MapHandler_p001_hit MapHandler_static_hit MapHandler_bucket
      DBHandler_seeded)

theorem redirect_status_by_version_witness:
  "MapHandler_p003 [''/a'' \<mapsto> ''x''] hello \<lparr>URL_Path = ''/a''\<rparr>
     (fresh [PathRedirect \<mapsto> [''/a'' \<mapsto> ''x'']] [''../conf.json'' \<mapsto> conf_one])
   = Ret () \<lparr>resp = [Redirect ''x'' 308], store = [PathRedirect \<mapsto> [''/a'' \<mapsto> ''x'']],
              files = [''../conf.json'' \<mapsto> conf_one]\<rparr>
   \<and> MapHandler_p001 [''/a'' \<mapsto> ''x''] hello \<lparr>URL_Path = ''/a''\<rparr>
     (fresh [PathRedirect \<mapsto> [''/a'' \<mapsto> ''x'']] [''../conf.json'' \<mapsto> conf_one])
   = Ret () \<lparr>resp = [Redirect ''x'' 302], store = [PathRedirect \<mapsto> [''/a'' \<mapsto> ''x'']],
              files = [''../conf.json'' \<mapsto> conf_one]\<rparr>
   \<and> MapHandler [''/a'' \<mapsto> ''x''] Open_db hello \<lparr>URL_Path = ''/a''\<rparr>
     (fresh [PathRedirect \<mapsto> [''/a'' \<mapsto> ''x'']] [''../conf.json'' \<mapsto> conf_one])
   = Ret () \<lparr>resp = [Redirect ''x'' 308], store = [PathRedirect \<mapsto> [''/a'' \<mapsto> ''x'']],
              files = [''../conf.json'' \<mapsto> conf_one]\<rparr>
   \<and> DBHandler sample_libs Open_db hello \<lparr>URL_Path = ''/a''\<rparr>
     (fresh [PathRedirect \<mapsto> [''/a'' \<mapsto> ''x'']] [''../conf.json'' \<mapsto> conf_one])
   = Ret () \<lparr>resp = [Redirect ''x'' 308], store = [PathRedirect \<mapsto> [''/a'' \<mapsto> ''x'']],
              files = [''../conf.json'' \<mapsto> conf_one]\<rparr>"
proof -
  let ?m = "[''/a'' \<mapsto> ''x'']"
  let ?r = "\<lparr>URL_Path = ''/a''\<rparr>"
  let ?s = "fresh [PathRedirect \<mapsto> ?m] [''../conf.json'' \<mapsto> conf_one]"
  have hit: "?m (URL_Path ?r) = Some ''x''" by simp
  have bucket: "store ?s PathRedirect = Some ?m \<and> ?m (URL_Path ?r) = Some ''x''"
    by (simp add: fresh_def)
  have seeded: "loadDB sample_libs Open_db ?s = Ret None ?s \<and> store ?s PathRedirect = Some ?m
                \<and> ?m (URL_Path ?r) = Some ''x''"
    by (simp add: seed_defs sample_defs)
  from redirect_status_by_version [of ?m ?r "''x''" hello ?s ?m sample_libs ?s] hit bucket seeded
  show ?thesis by (simp add: fresh_def)
qed

text \<open>
  C9. When decoding the input fails (the bytes handed over when the file path is
  empty, the content of the file otherwise), \<open>parseJSON\<close> and \<open>parseYAML\<close> report the
  error, and every \<open>JSONHandler\<close> and \<open>YAMLHandler\<close> returns a nil handler with that
  error. No map is built from what the decoder filled in before failing, and the
  constructors that write to the store leave the state as it was.
\<close>

theorem parse_failure_no_handler:
  "(((jsonFilePath = [] \<and> input = json) \<or> (jsonFilePath \<noteq> [] \<and> files s jsonFilePath = Some input))
     \<and> json_Unmarshal L input = (partial, Some e) \<longrightarrow>
       parseJSON L input = (partial, Some e)
     \<and> JSONHandler_p003 L json jsonFilePath fallback s = (None, Some e)
     \<and> JSONHandler_p001 L json jsonFilePath fallback s = (None, Some e)
     \<and> JSONHandler_p002 L json jsonFilePath db fallback s = Ret (None, Some e) s
     \<and> JSONHandler L json jsonFilePath db fallback s = Ret (None, Some e) s)
   \<and> (((yamlFilePath = [] \<and> yinput = yaml) \<or> (yamlFilePath \<noteq> [] \<and> files s yamlFilePath = Some yinput))
     \<and> yaml_Unmarshal L yinput = (ypartial, Some e) \<longrightarrow>
       parseYAML L yinput = (ypartial, Some e)
     \<and> YAMLHandler_p003 L yaml yamlFilePath fallback s = (None, Some e)
     \<and> YAMLHandler_p001 L yaml yamlFilePath fallback s = (None, Some e)
     \<and> YAMLHandler L yaml yamlFilePath fallback s = (None, Some e))"
proof -
  have j: "parseJSON L input = (partial, Some e)
     \<and> JSONHandler_p003 L json jsonFilePath fallback s = (None, Some e)
     \<and> JSONHandler_p001 L json jsonFilePath fallback s = (None, Some e)
     \<and> JSONHandler_p002 L json jsonFilePath db fallback s = Ret (None, Some e) s
     \<and> JSONHandler L json jsonFilePath db fallback s = Ret (None, Some e) s"
    if src: "(jsonFilePath = [] \<and> input = json) \<or> (jsonFilePath \<noteq> [] \<and> files s jsonFilePath = Some input)"
      and bad: "json_Unmarshal L input = (partial, Some e)"
  proof -
    have p: "parseJSON L input = (partial, Some e)"
      using bad by (simp add: parseJSON_def)
    from src show ?thesis
    proof
      assume "jsonFilePath = [] \<and> input = json"
      with p show ?thesis
        by (simp add: JSONHandler_p003_def JSONHandler_p001_def JSONHandler_p002_def
            JSONHandler_def)
    next
      assume "jsonFilePath \<noteq> [] \<and> files s jsonFilePath = Some input"
      with p show ?thesis
        by (simp add: JSONHandler_p003_def JSONHandler_p001_def JSONHandler_p002_def
            JSONHandler_def ReadFile_def)
    qed
  qed
  have y: "parseYAML L yinput = (ypartial, Some e)
     \<and> YAMLHandler_p003 L yaml yamlFilePath fallback s = (None, Some e)
     \<and> YAMLHandler_p001 L yaml yamlFilePath fallback s = (None, Some e)
     \<and> YAMLHandler L yaml yamlFilePath fallback s = (None, Some e)"
    if src: "(yamlFilePath = [] \<and> yinput = yaml) \<or> (yamlFilePath \<noteq> [] \<and> files s yamlFilePath = Some yinput)"
      and bad: "yaml_Unmarshal L yinput = (ypartial, Some e)"
  proof -
    have p: "parseYAML L yinput = (ypartial, Some e)"
      using bad by (simp add: parseYAML_def)
    from src show ?thesis
    proof
      assume "yamlFilePath = [] \<and> yinput = yaml"
      with p show ?thesis
        by (simp add: YAMLHandler_p003_def YAMLHandler_p001_def YAMLHandler_def)
    next
      assume "yamlFilePath \<noteq> [] \<and> files s yamlFilePath = Some yinput"
      with p show ?thesis
        by (simp add: YAMLHandler_p003_def YAMLHandler_p001_def YAMLHandler_def ReadFile_def)
    qed
  qed
  from j y show ?thesis by blast
qed

theorem parse_failure_no_handler_witness:
  "JSONHandler sample_libs conf_wrong_type [] Open_db hello
     (fresh Map.empty [''../conf.yaml'' \<mapsto> yaml_wrong_type])
   = Ret (None, Some (UnmarshalError ''json: cannot unmarshal number into Go struct field of type string''))
       (fresh Map.empty [''../conf.yaml'' \<mapsto> yaml_wrong_type])
   \<and> JSONHandler_p002 sample_libs conf_wrong_type [] Open_db hello
     (fresh Map.empty [''../conf.yaml'' \<mapsto> yaml_wrong_type])
   = Ret (None, Some (UnmarshalError ''json: cannot unmarshal number into Go struct field of type string''))
       (fresh Map.empty [''../conf.yaml'' \<mapsto> yaml_wrong_type])
   \<and> YAMLHandler sample_libs yaml_one ''../conf.yaml'' hello
     (fresh Map.empty [''../conf.yaml'' \<mapsto> yaml_wrong_type])
   = (None, Some (UnmarshalError
        ''yaml: unmarshal errors: cannot unmarshal !!map into []urlshort.pathUrlObj''))"
proof -
  let ?s = "fresh Map.empty [''../conf.yaml'' \<mapsto> yaml_wrong_type]"
  let ?je = "UnmarshalError ''json: cannot unmarshal number into Go struct field of type string''"
  let ?ye = "UnmarshalError ''yaml: unmarshal errors: cannot unmarshal !!map into []urlshort.pathUrlObj''"
  have jsrc: "([] = ([]::string) \<and> conf_wrong_type = conf_wrong_type)
              \<or> ([] \<noteq> ([]::string) \<and> files ?s [] = Some conf_wrong_type)"
    by simp
  have jbad: "json_Unmarshal sample_libs conf_wrong_type
              = (\<lparr>PathURL = [\<lparr>Path_json = [], URL = []\<rparr>]\<rparr>, Some ?je)"
    by (simp add: sample_defs)
  have ysrc: "(''../conf.yaml'' = [] \<and> yaml_wrong_type = yaml_one)
              \<or> (''../conf.yaml'' \<noteq> [] \<and> files ?s ''../conf.yaml'' = Some yaml_wrong_type)"
    by (simp add: fresh_def)
  have ybad: "yaml_Unmarshal sample_libs yaml_wrong_type = ([], Some ?ye)"
    by (simp add: sample_defs)
  from parse_failure_no_handler
    [of "[]" conf_wrong_type conf_wrong_type ?s sample_libs
        "\<lparr>PathURL = [\<lparr>Path_json = [], URL = []\<rparr>]\<rparr>" ?je hello Open_db
        "''../conf.yaml''" yaml_wrong_type yaml_one "[]"]
    jsrc jbad
  have 1: "JSONHandler sample_libs conf_wrong_type [] Open_db hello ?s = Ret (None, Some ?je) ?s
           \<and> JSONHandler_p002 sample_libs conf_wrong_type [] Open_db hello ?s = Ret (None, Some ?je) ?s"
    by blast
  from parse_failure_no_handler
    [of "[]" conf_wrong_type conf_wrong_type ?s sample_libs
        "\<lparr>PathURL = [\<lparr>Path_json = [], URL = []\<rparr>]\<rparr>" ?ye hello Open_db
        "''../conf.yaml''" yaml_wrong_type yaml_one "[]"]
    ysrc ybad
  have 2: "YAMLHandler sample_libs yaml_one ''../conf.yaml'' hello ?s = (None, Some ?ye)"
    by blast
  from 1 2 show ?thesis by blast
qed

text \<open>
  C10. With a non-empty file path the bytes argument of \<open>YAMLHandler\<close> and
  \<open>JSONHandler\<close> has no influence: for any two byte arguments, the same path and the
  same state (files, store), every version returns the same handler, the same
  error and, where it writes, the same state.
\<close>

theorem bytes_ignored_with_file_path:
  "p \<noteq> [] \<longrightarrow>
     YAMLHandler_p003 L b1 p fallback s = YAMLHandler_p003 L b2 p fallback s
   \<and> YAMLHandler_p001 L b1 p fallback s = YAMLHandler_p001 L b2 p fallback s
   \<and> YAMLHandler L b1 p fallback s = YAMLHandler L b2 p fallback s
   \<and> JSONHandler_p003 L b1 p fallback s = JSONHandler_p003 L b2 p fallback s
   \<and> JSONHandler_p001 L b1 p fallback s = JSONHandler_p001 L b2 p fallback s
   \<and> JSONHandler_p002 L b1 p db fallback s = JSONHandler_p002 L b2 p db fallback s
   \<and> JSONHandler L b1 p db fallback s = JSONHandler L b2 p db fallback s"
  by (simp add: YAMLHandler_p003_def YAMLHandler_p001_def YAMLHandler_def
      JSONHandler_p003_def JSONHandler_p001_def JSONHandler_p002_def JSONHandler_def)

theorem bytes_ignored_with_file_path_witness:
  "''../conf.json'' \<noteq> [] \<and> ''../conf.yaml'' \<noteq> []
   \<and> JSONHandler sample_libs conf_one ''../conf.json'' Open_db hello
       (fresh Map.empty [''../conf.json'' \<mapsto> conf_blank_key, ''../conf.yaml'' \<mapsto> yaml_one])
     = JSONHandler sample_libs conf_wrong_type ''../conf.json'' Open_db hello
       (fresh Map.empty [''../conf.json'' \<mapsto> conf_blank_key, ''../conf.yaml'' \<mapsto> yaml_one])
   \<and> YAMLHandler sample_libs yaml_wrong_type ''../conf.yaml'' hello
       (fresh Map.empty [''../conf.json'' \<mapsto> conf_blank_key, ''../conf.yaml'' \<mapsto> yaml_one])
     = YAMLHandler sample_libs yaml_one ''../conf.yaml'' hello
       (fresh Map.empty [''../conf.json'' \<mapsto> conf_blank_key, ''../conf.yaml'' \<mapsto> yaml_one])"
proof -
  let ?s = "fresh Map.empty [''../conf.json'' \<mapsto> conf_blank_key, ''../conf.yaml'' \<mapsto> yaml_one]"
  have j: "''../conf.json'' \<noteq> []" by simp
  have y: "''../conf.yaml'' \<noteq> []" by simp
  from bytes_ignored_with_file_path
    [where p = "''../conf.json''" and L = sample_libs and fallback = hello and s = ?s
       and db = Open_db and ?b1.0 = conf_one and ?b2.0 = conf_wrong_type] j
  have 1: "JSONHandler sample_libs conf_one ''../conf.json'' Open_db hello ?s
           = JSONHandler sample_libs conf_wrong_type ''../conf.json'' Open_db hello ?s"
    by blast
  from bytes_ignored_with_file_path
    [where p = "''../conf.yaml''" and L = sample_libs and fallback = hello and s = ?s
       and db = Open_db and ?b1.0 = yaml_wrong_type and ?b2.0 = yaml_one] y
  have 2: "YAMLHandler sample_libs yaml_wrong_type ''../conf.yaml'' hello ?s
           = YAMLHandler sample_libs yaml_one ''../conf.yaml'' hello ?s"
    by blast
  from j y 1 2 show ?thesis by blast
qed

end
